theory Spec2Isabelle
  imports Main "HOL-Library.Sublist"
begin

section \<open>Python values and errors\<close>

text \<open>
  The values \<open>yaml.safe_load\<close> produces, as far as the configuration documents of the
  repository use them: null, booleans, integers, strings, sequences and mappings with
  string keys. A mapping is an association list read with \<open>map_of\<close>.
\<close>

datatype yaml =
    YNull
  | YBool bool
  | YInt int
  | YStr string
  | YList "yaml list"
  | YDict "(string \<times> yaml) list"

text \<open>
  The exceptions the modelled code raises, with the key, the message or the name where
  one is used. RuntimeError is what an error of the pipeline library surfaces as.
\<close>

datatype py_error =
    KeyError string
  | ValueError string
  | TypeError
  | NameError string
  | OSError
  | RuntimeError string

text \<open>Python's truth value of an object, as the filter \<open>if key\<close> tests it.\<close>

fun truthy :: "yaml \<Rightarrow> bool" where
  "truthy YNull = False"
| "truthy (YBool b) = b"
| "truthy (YInt i) = (i \<noteq> 0)"
| "truthy (YStr s) = (s \<noteq> [])"
| "truthy (YList xs) = (xs \<noteq> [])"
| "truthy (YDict d) = (d \<noteq> [])"

fun isinstance_dict :: "yaml \<Rightarrow> bool" where
  "isinstance_dict (YDict d) = True"
| "isinstance_dict v = False"

text \<open>
  \<open>path[key]\<close> with a string key: a mapping returns the value or raises KeyError; a
  string, a sequence, a number, a boolean or None raises TypeError.
\<close>

fun getitem :: "yaml \<Rightarrow> string \<Rightarrow> py_error + yaml" where
  "getitem (YDict d) key = (case map_of d key of None \<Rightarrow> Inl (KeyError key) | Some v \<Rightarrow> Inr v)"
| "getitem v key = Inl TypeError"

text \<open>\<open>sep.join(items)\<close> on strings.\<close>

fun str_join :: "string \<Rightarrow> string list \<Rightarrow> string" where
  "str_join sep [] = []"
| "str_join sep [x] = x"
| "str_join sep (x # y # ys) = x @ sep @ str_join sep (y # ys)"

text \<open>\<open>sep.join(items)\<close> on arbitrary objects: TypeError unless every item is a string.\<close>

fun str_items :: "yaml list \<Rightarrow> string list option" where
  "str_items [] = Some []"
| "str_items (YStr s # vs) = (case str_items vs of None \<Rightarrow> None | Some ss \<Rightarrow> Some (s # ss))"
| "str_items (v # vs) = None"

definition py_join :: "string \<Rightarrow> yaml list \<Rightarrow> py_error + string" where
  "py_join sep items =
     (case str_items items of None \<Rightarrow> Inl TypeError | Some ss \<Rightarrow> Inr (str_join sep ss))"

section \<open>PathBuilder (config/path\_builder.py)\<close>

record PathBuilder =
  tenant_id :: string
  environment :: string
  config :: yaml

text \<open>\<open>'/' + '/'.join([key for key in list(keys) if key])\<close>\<close>

definition param_global_base :: "yaml list \<Rightarrow> py_error + string" where
  "param_global_base keys =
     (case py_join ''/'' (filter truthy keys) of
        Inl e \<Rightarrow> Inl e
      | Inr s \<Rightarrow> Inr (''/'' @ s))"

text \<open>\<open>'/' + '/'.join([key for key in [self.tenant_id] + list(keys) if key])\<close>\<close>

definition param_base :: "PathBuilder \<Rightarrow> yaml list \<Rightarrow> py_error + string" where
  "param_base self keys =
     (case py_join ''/'' (filter truthy (YStr (tenant_id self) # keys)) of
        Inl e \<Rightarrow> Inl e
      | Inr s \<Rightarrow> Inr (''/'' @ s))"

definition param_env_base :: "PathBuilder \<Rightarrow> yaml list \<Rightarrow> py_error + string" where
  "param_env_base self keys = param_base self (YStr (environment self) # keys)"

text \<open>The loop \<open>for key in keys: path = path[key]\<close>.\<close>

fun walk :: "yaml \<Rightarrow> string list \<Rightarrow> py_error + yaml" where
  "walk path [] = Inr path"
| "walk path (key # keys) =
     (case getitem path key of Inl e \<Rightarrow> Inl e | Inr v \<Rightarrow> walk v keys)"

text \<open>The body of the \<open>try\<close> block of \<open>get_ssm_path\<close>.\<close>

definition get_ssm_path_try :: "PathBuilder \<Rightarrow> string list \<Rightarrow> bool \<Rightarrow> py_error + string" where
  "get_ssm_path_try self keys global_param =
     (case walk (config self) keys of
        Inl e \<Rightarrow> Inl e
      | Inr path \<Rightarrow>
          if isinstance_dict path then
            Inl (ValueError (''Invalid parameter path: '' @ str_join ''/'' keys @
                             '', expected a string but found a dictionary''))
          else if global_param then param_global_base [path]
          else param_env_base self [path])"

text \<open>\<open>except KeyError\<close> re-raises as ValueError; every other exception propagates.\<close>

definition get_ssm_path :: "PathBuilder \<Rightarrow> string list \<Rightarrow> bool \<Rightarrow> py_error + string" where
  "get_ssm_path self keys global_param =
     (case get_ssm_path_try self keys global_param of
        Inl (KeyError k) \<Rightarrow> Inl (ValueError (''Invalid parameter path: '' @ str_join ''/'' keys))
      | r \<Rightarrow> r)"

definition get_ssm_path_all :: "PathBuilder \<Rightarrow> py_error + string" where
  "get_ssm_path_all self = param_env_base self [YStr ''*'']"

section \<open>load\_configurations (config/config.py)\<close>

text \<open>\<open>s.endswith(suffix)\<close>\<close>

definition endswith :: "string \<Rightarrow> string \<Rightarrow> bool" where
  "endswith s suf = (length suf \<le> length s \<and> drop (length s - length suf) s = suf)"

text \<open>
  \<open>os.path.splitext\<close> on a bare file name, as \<open>os.listdir\<close> returns it (no directory
  separator): the split is at the last dot, unless only dots precede it.
\<close>

definition splitext :: "string \<Rightarrow> string \<times> string" where
  "splitext p =
     (let root = rev (tl (dropWhile (\<lambda>c. c \<noteq> CHR ''.'') (rev p)));
          ext = CHR ''.'' # rev (takeWhile (\<lambda>c. c \<noteq> CHR ''.'') (rev p))
      in if list_ex (\<lambda>c. c = CHR ''.'') p \<and> list_ex (\<lambda>c. c \<noteq> CHR ''.'') root
         then (root, ext) else (p, []))"

text \<open>
  The directory is given as its listing, in the order \<open>os.listdir\<close> returns it, each
  name with the outcome of opening the file and running \<open>yaml.safe_load\<close> on it.
  The loop stores each document with \<open>configurations[key_name] = ...\<close>.
\<close>

fun load_loop ::
  "(string \<rightharpoonup> yaml) \<Rightarrow> (string \<times> (py_error + yaml)) list \<Rightarrow> py_error + (string \<rightharpoonup> yaml)" where
  "load_loop configurations [] = Inr configurations"
| "load_loop configurations ((filename, loaded) # rest) =
     (if endswith filename ''.yaml'' \<or> endswith filename ''.yml'' then
        (case loaded of
           Inl e \<Rightarrow> Inl e
         | Inr document \<Rightarrow>
             (let key_name = fst (splitext filename)
              in load_loop (configurations(key_name \<mapsto> document)) rest))
      else load_loop configurations rest)"

definition load_configurations ::
  "(string \<times> (py_error + yaml)) list \<Rightarrow> py_error + (string \<rightharpoonup> yaml)" where
  "load_configurations listing = load_loop Map.empty listing"

section \<open>Tenant and environment selection (app.py)\<close>

text \<open>
  The \<open>environments\<close> document: tenants, each with its environments, each with its
  settings. Both levels are Python dicts, written as association lists in insertion order.
\<close>

type_synonym environments = "(string \<times> (string \<times> yaml) list) list"

text \<open>
  What the script goes on to build: the toolchain stack, or the tenant pipeline with the
  values the \<open>elif\<close> branch has read so far (the resource prefix, the application
  configuration, the tenant configuration, and the account and region of the target
  environment).
\<close>

datatype selection =
    ToolchainStack
  | TenantPipeline string yaml yaml yaml yaml

text \<open>\<open>f"{x}"\<close> of a context value that may be None.\<close>

fun format_opt :: "string option \<Rightarrow> string" where
  "format_opt None = ''None''"
| "format_opt (Some s) = s"

text \<open>\<open>not tenant_id\<close>: None and the empty string are both false.\<close>

fun not_value :: "string option \<Rightarrow> bool" where
  "not_value None = True"
| "not_value (Some s) = (s = [])"

text \<open>\<open>tenant_id in environments and target_env in environments[tenant_id]\<close>\<close>

definition pair_in_environments :: "environments \<Rightarrow> string option \<Rightarrow> string option \<Rightarrow> bool" where
  "pair_in_environments environments ctx_tenant_id ctx_target_env =
     (case ctx_tenant_id of
        None \<Rightarrow> False
      | Some t \<Rightarrow>
          (case map_of environments t of
             None \<Rightarrow> False
           | Some env_dict \<Rightarrow>
               (case ctx_target_env of
                  None \<Rightarrow> False
                | Some e \<Rightarrow> map_of env_dict e \<noteq> None)))"

text \<open>\<open>environments[tenant_id][target_env]\<close>, which the \<open>elif\<close> branch reads.\<close>

definition tenant_config_of :: "environments \<Rightarrow> string \<Rightarrow> string \<Rightarrow> py_error + yaml" where
  "tenant_config_of environments t e =
     (case map_of environments t of
        None \<Rightarrow> Inl (KeyError t)
      | Some env_dict \<Rightarrow>
          (case map_of env_dict e of None \<Rightarrow> Inl (KeyError e) | Some c \<Rightarrow> Inr c))"

text \<open>\<open>f"Tenant: {tenant}, Environment: {env}"\<close>\<close>

definition pair_label :: "string \<Rightarrow> string \<Rightarrow> string" where
  "pair_label tenant env = ''Tenant: '' @ tenant @ '', Environment: '' @ env"

text \<open>The list comprehension of the \<open>else\<close> branch, over \<open>environments.items()\<close>
  and \<open>env_dict.keys()\<close>.\<close>

definition valid_envs :: "environments \<Rightarrow> string list" where
  "valid_envs environments =
     concat (map (\<lambda>(tenant, env_dict). map (\<lambda>env. pair_label tenant env) (map fst env_dict))
                 environments)"

text \<open>
  The \<open>if\<close>/\<open>elif\<close>/\<open>else\<close> of the script, on the two context values
  \<open>tenant_id\<close> and \<open>target_env\<close> (None when not given). The \<open>elif\<close> branch is
  followed up to the target environment: it reads \<open>applications\<close> of the tenant
  configuration, then the configuration itself, then its \<open>account\<close> and
  \<open>region\<close>, each read raising when the key is missing. The construction of the
  PathBuilder and of the pipeline stack, which comes next, is the subject of the other
  sections. The test of the \<open>elif\<close> holds only when both values are given.
\<close>

definition app_select ::
  "environments \<Rightarrow> string option \<Rightarrow> string option \<Rightarrow> py_error + selection" where
  "app_select environments ctx_tenant_id ctx_target_env =
     (if not_value ctx_tenant_id then Inr ToolchainStack
      else if pair_in_environments environments ctx_tenant_id ctx_target_env then
        (case (ctx_tenant_id, ctx_target_env) of
           (Some t, Some e) \<Rightarrow>
             (let resource_prefix = t @ ''-'' @ e
              in
              case tenant_config_of environments t e of
                Inl err \<Rightarrow> Inl err
              | Inr tenant_config0 \<Rightarrow>
             (case getitem tenant_config0 ''applications'' of
                Inl err \<Rightarrow> Inl err
              | Inr application_config \<Rightarrow>
             (case tenant_config_of environments t e of
                Inl err \<Rightarrow> Inl err
              | Inr tenant_config \<Rightarrow>
             (case getitem tenant_config ''account'' of
                Inl err \<Rightarrow> Inl err
              | Inr target_account_id \<Rightarrow>
             (case getitem tenant_config ''region'' of
                Inl err \<Rightarrow> Inl err
              | Inr target_region \<Rightarrow>
                  Inr (TenantPipeline resource_prefix application_config tenant_config
                         target_account_id target_region))))))
         | _ \<Rightarrow> Inl TypeError)
      else
        Inl (ValueError (''Invalid arguments: '' @ format_opt ctx_tenant_id @ '', '' @
                         format_opt ctx_target_env @ ''. Valid arguments are: '' @
                         str_join ''; '' (valid_envs environments))))"

section \<open>The pipeline and the stack (pipelines/infra\_pipeline.py)\<close>


datatype stage_class = NetworkStage | InfraStage | PostDeployStage
















record Environment =
  account :: string
  region :: string

text \<open>
  The fields of \<open>InfraPipelineStackProps\<close> that the stages, waves, steps and
  notifications read. The source connection, the synth step and the IAM role of the
  pipeline read the others; they are resource declarations and are left out.
\<close>

record InfraPipelineStackProps =
  cluster_admin_role_name :: string
  deployment_env :: Environment
  email_subscriptions :: "string list"
  enable_manual_approval :: bool
  karpenter_version :: string
  kubernetes_version :: string
  path_builder :: PathBuilder
  project_tags :: "(string \<times> string) list"
  resource_prefix :: string
  target_account :: Environment




section \<open>The stages (stages/network\_stage.py, infra\_stage.py, post\_deploy\_stage.py)\<close>






section \<open>The constructor of InfraPipelineStack\<close>





section \<open>Notions used to state the properties\<close>

text \<open>The segments of a path: what \<open>path.split('/')\<close> returns.\<close>

fun path_segments :: "string \<Rightarrow> string list" where
  "path_segments [] = [[]]"
| "path_segments (c # cs) =
     (if c = CHR ''/'' then [] # path_segments cs
      else (case path_segments cs of [] \<Rightarrow> [[c]] | s # ss \<Rightarrow> (c # s) # ss))"

text \<open>
  The segment a resolved value contributes to a path: the string itself; a value that is
  not a string is either dropped by the filter or makes the join raise.
\<close>

fun seg_of :: "yaml \<Rightarrow> string" where
  "seg_of (YStr s) = s"
| "seg_of v = []"

text \<open>A path component that brings no empty segment of its own: no \<open>//\<close> inside, no
  \<open>/\<close> at either end.\<close>

definition tidy :: "string \<Rightarrow> bool" where
  "tidy s = (\<not> sublist ''//'' s \<and> (s = [] \<or> (hd s \<noteq> CHR ''/'' \<and> last s \<noteq> CHR ''/'')))"

section \<open>Example inputs\<close>

text \<open>A path specification with a nested group, a scalar at the top level, an empty
  segment and a segment that equals the environment name.\<close>

definition example_builder :: PathBuilder where
  "example_builder =
     \<lparr>tenant_id = ''acme'', environment = ''dev'',
      config = YDict [(''eks'', YDict [(''oidc-id'', YStr ''eks/oidc-id'')]),
                      (''acm'', YStr ''acm-arn''),
                      (''blank'', YStr []),
                      (''shared'', YStr ''dev'')]\<rparr>"

definition no_tenant_builder :: PathBuilder where
  "no_tenant_builder =
     \<lparr>tenant_id = [], environment = ''dev'',
      config = YDict [(''eks'', YDict [(''oidc-id'', YStr ''eks/oidc-id'')])]\<rparr>"

text \<open>An \<open>environments\<close> document with one tenant and two environments.\<close>

definition example_environments :: environments where
  "example_environments =
     [(''acme'', [(''dev'', YDict [(''enable_manual_approval'', YBool True)]),
                  (''prod'', YDict [(''enable_manual_approval'', YBool False)])])]"



section \<open>Properties of PathBuilder\<close>

subsection \<open>The shape of a resolved path\<close>

lemma str_items_filter_truthy:
  "str_items (filter truthy vs) = Some ss \<Longrightarrow> ss = filter (\<lambda>s. s \<noteq> []) (map seg_of vs)"
proof (induction vs arbitrary: ss)
  case Nil
  then show ?case by simp
next
  case (Cons v vs)
  then show ?case by (cases v) (auto split: option.splits if_splits)
qed

lemma get_ssm_path_env_form:
  assumes "get_ssm_path self keys False = Inr r"
  shows "\<exists>v. walk (config self) keys = Inr v \<and> \<not> isinstance_dict v \<and>
           r = ''/'' @ str_join ''/'' (filter (\<lambda>s. s \<noteq> []) [tenant_id self, environment self, seg_of v])"
proof -
  from assms obtain v where w: "walk (config self) keys = Inr v"
    by (auto simp: get_ssm_path_def get_ssm_path_try_def split: sum.splits py_error.splits)
  from assms w have nd: "\<not> isinstance_dict v"
    by (auto simp: get_ssm_path_def get_ssm_path_try_def split: sum.splits py_error.splits if_splits)
  from assms w nd have pe: "param_env_base self [v] = Inr r"
    by (auto simp: get_ssm_path_def get_ssm_path_try_def split: sum.splits py_error.splits if_splits)
  then obtain ss where ss: "str_items (filter truthy [YStr (tenant_id self), YStr (environment self), v]) = Some ss"
    and r: "r = ''/'' @ str_join ''/'' ss"
    by (auto simp: param_env_base_def param_base_def py_join_def split: sum.splits option.splits)
  from str_items_filter_truthy[OF ss] have "ss = filter (\<lambda>s. s \<noteq> []) [tenant_id self, environment self, seg_of v]"
    by simp
  with w nd r show ?thesis by blast
qed

lemma get_ssm_path_global_form:
  assumes "get_ssm_path self keys True = Inr r"
  shows "\<exists>v. walk (config self) keys = Inr v \<and> \<not> isinstance_dict v \<and> r = ''/'' @ seg_of v"
proof -
  from assms obtain v where w: "walk (config self) keys = Inr v"
    by (auto simp: get_ssm_path_def get_ssm_path_try_def split: sum.splits py_error.splits)
  from assms w have nd: "\<not> isinstance_dict v"
    by (auto simp: get_ssm_path_def get_ssm_path_try_def split: sum.splits py_error.splits if_splits)
  from assms w nd have pe: "param_global_base [v] = Inr r"
    by (auto simp: get_ssm_path_def get_ssm_path_try_def split: sum.splits py_error.splits if_splits)
  then obtain ss where ss: "str_items (filter truthy [v]) = Some ss"
    and r: "r = ''/'' @ str_join ''/'' ss"
    by (auto simp: param_global_base_def py_join_def split: sum.splits option.splits)
  from str_items_filter_truthy[OF ss] have "ss = filter (\<lambda>s. s \<noteq> []) [seg_of v]"
    by simp
  with w nd r show ?thesis by (cases "seg_of v = []") auto
qed

lemma missing_key_value_error:
  assumes "walk (config self) keys = Inl (KeyError k)"
  shows "get_ssm_path self keys global_param =
           Inl (ValueError (''Invalid parameter path: '' @ str_join ''/'' keys))"
  using assms by (simp add: get_ssm_path_def get_ssm_path_try_def)

lemma truthy_resolved_is_str:
  assumes "get_ssm_path self keys g = Inr r" and "walk (config self) keys = Inr v" and "truthy v"
  shows "\<exists>s. v = YStr s \<and> s \<noteq> []"
  using assms
  by (cases v; cases g)
     (auto simp: get_ssm_path_def get_ssm_path_try_def param_env_base_def param_base_def
        param_global_base_def py_join_def split: sum.splits py_error.splits if_splits option.splits)

subsection \<open>Double slashes\<close>

lemma sublist_dslash_head:
  "sublist ''//'' (CHR ''/'' # b) = ((b \<noteq> [] \<and> hd b = CHR ''/'') \<or> sublist ''//'' b)"
  by (cases b) (auto simp: sublist_Cons_right)

lemma dslash_append:
  "sublist ''//'' (a @ b) =
     (sublist ''//'' a \<or> sublist ''//'' b \<or>
      (a \<noteq> [] \<and> b \<noteq> [] \<and> last a = CHR ''/'' \<and> hd b = CHR ''/''))"
proof (induction a)
  case Nil
  then show ?case by simp
next
  case (Cons x a)
  show ?case
  proof (cases a)
    case Nil
    then show ?thesis by (cases b) (auto simp: sublist_Cons_right)
  next
    case (Cons y ys)
    with Cons.IH show ?thesis by (auto simp: sublist_Cons_right)
  qed
qed

lemma tidy_join_aux:
  assumes "\<forall>s \<in> set ss. s \<noteq> [] \<and> tidy s"
  shows "tidy (str_join ''/'' ss)"
  using assms
proof (induction ss)
  case Nil
  then show ?case by (simp add: tidy_def)
next
  case (Cons x ss)
  show ?case
  proof (cases ss)
    case Nil
    with Cons.prems show ?thesis by simp
  next
    case (Cons y ys)
    from Cons.prems have x: "x \<noteq> []" "tidy x" by auto
    from Cons.IH Cons.prems have ih: "tidy (str_join ''/'' ss)" by auto
    from Cons.prems Cons have ne: "str_join ''/'' ss \<noteq> []" by (cases ys) auto
    have eq: "str_join ''/'' (x # ss) = x @ ''/'' @ str_join ''/'' ss"
      using Cons by simp
    have "\<not> sublist ''//'' (''/'' @ str_join ''/'' ss)"
      using ih ne by (auto simp: sublist_dslash_head tidy_def)
    then have "\<not> sublist ''//'' (x @ ''/'' @ str_join ''/'' ss)"
      using x by (subst dslash_append) (auto simp: tidy_def)
    moreover have "hd (x @ ''/'' @ str_join ''/'' ss) \<noteq> CHR ''/''"
      using x by (cases x) (auto simp: tidy_def)
    moreover have "last (x @ ''/'' @ str_join ''/'' ss) \<noteq> CHR ''/''"
      using ih ne by (auto simp: tidy_def)
    ultimately show ?thesis unfolding eq tidy_def by simp
  qed
qed

lemma no_dslash_path:
  assumes "\<forall>s \<in> set ss. s \<noteq> [] \<and> tidy s"
  shows "\<not> sublist ''//'' (''/'' @ str_join ''/'' ss)"
  using tidy_join_aux[OF assms] by (auto simp: sublist_dslash_head tidy_def)

subsection \<open>Claims on path resolution\<close>

text \<open>
  Claim C1, as stated, fails: a segment that is empty (or null) resolves to
  \<open>/{tenant_id}/{environment}\<close> with no trailing slash, and a global segment that
  equals the environment name yields a path with that name as a segment.
\<close>

theorem path_scoping_counterexample:
  "get_ssm_path example_builder [''blank''] False = Inr ''/acme/dev'' \<and>
   \<not> prefix ''/acme/dev/'' ''/acme/dev'' \<and>
   get_ssm_path example_builder [''shared''] True = Inr ''/dev'' \<and>
   environment example_builder \<in> set (path_segments ''/dev'')"
  by (simp add: example_builder_def get_ssm_path_def get_ssm_path_try_def param_env_base_def
        param_base_def param_global_base_def py_join_def)

text \<open>
  Claim C1, amended. With non-empty \<open>tenant_id\<close> and \<open>environment\<close>, a path that
  \<open>get_ssm_path\<close> returns is: for a global key, \<open>/\<close> followed by the configured
  segment alone, so that its segments after the leading slash are those of the configured
  segment and neither the tenant nor the environment is added; for a scoped key with a
  non-empty segment, \<open>/{tenant_id}/{environment}/{segment}\<close>, which begins with
  \<open>/{tenant_id}/{environment}/\<close>; for a scoped key with an empty segment, exactly
  \<open>/{tenant_id}/{environment}\<close>.
\<close>

theorem path_scoping:
  assumes "tenant_id self \<noteq> []" and "environment self \<noteq> []"
    and "get_ssm_path self keys global_param = Inr r"
  shows "\<exists>v. walk (config self) keys = Inr v \<and>
           (if global_param then
              r = ''/'' @ seg_of v \<and> path_segments r = [] # path_segments (seg_of v)
            else if seg_of v = [] then
              r = ''/'' @ tenant_id self @ ''/'' @ environment self
            else
              r = ''/'' @ tenant_id self @ ''/'' @ environment self @ ''/'' @ seg_of v \<and>
              prefix (''/'' @ tenant_id self @ ''/'' @ environment self @ ''/'') r)"
proof (cases global_param)
  case True
  with assms(3) get_ssm_path_global_form[of self keys r] show ?thesis by auto
next
  case False
  with assms(3) get_ssm_path_env_form[of self keys r]
  obtain v where "walk (config self) keys = Inr v"
    and "r = ''/'' @ str_join ''/''
               (filter (\<lambda>s. s \<noteq> []) [tenant_id self, environment self, seg_of v])"
    by auto
  with False assms(1,2) show ?thesis by auto
qed

theorem path_scoping_witness:
  "tenant_id example_builder \<noteq> [] \<and> environment example_builder \<noteq> [] \<and>
   get_ssm_path example_builder [''eks'', ''oidc-id''] False = Inr ''/acme/dev/eks/oidc-id'' \<and>
   (\<exists>v. walk (config example_builder) [''eks'', ''oidc-id''] = Inr v \<and> seg_of v \<noteq> [] \<and>
        prefix (''/'' @ tenant_id example_builder @ ''/'' @ environment example_builder @ ''/'')
          ''/acme/dev/eks/oidc-id'')"
proof -
  have h1: "tenant_id example_builder \<noteq> []" by (simp add: example_builder_def)
  have h2: "environment example_builder \<noteq> []" by (simp add: example_builder_def)
  have h3: "get_ssm_path example_builder [''eks'', ''oidc-id''] False = Inr ''/acme/dev/eks/oidc-id''"
    by (simp add: example_builder_def get_ssm_path_def get_ssm_path_try_def param_env_base_def
        param_base_def py_join_def)
  have w: "walk (config example_builder) [''eks'', ''oidc-id''] = Inr (YStr ''eks/oidc-id'')"
    by (simp add: example_builder_def)
  from path_scoping [OF h1 h2 h3] w h1 h2 h3 show ?thesis
    by (auto simp: example_builder_def)
qed

text \<open>
  Claim C5. When the walk through the path specification ends on a mapping,
  \<open>get_ssm_path\<close> raises ValueError with the key path in the message, whatever
  \<open>global_param\<close> is; it returns no string.
\<close>

theorem submapping_rejected:
  assumes "walk (config self) keys = Inr (YDict d)"
  shows "get_ssm_path self keys global_param =
           Inl (ValueError (''Invalid parameter path: '' @ str_join ''/'' keys @
                            '', expected a string but found a dictionary''))"
  using assms by (simp add: get_ssm_path_def get_ssm_path_try_def)

theorem submapping_rejected_witness:
  "walk (config example_builder) [''eks''] = Inr (YDict [(''oidc-id'', YStr ''eks/oidc-id'')]) \<and>
   get_ssm_path example_builder [''eks''] False =
     Inl (ValueError ''Invalid parameter path: eks, expected a string but found a dictionary'')"
proof -
  have h: "walk (config example_builder) [''eks''] = Inr (YDict [(''oidc-id'', YStr ''eks/oidc-id'')])"
    by (simp add: example_builder_def)
  show ?thesis using h submapping_rejected [OF h, of False] by simp
qed

text \<open>
  Claim C6 at an input where it fails. The key \<open>acm\<close> holds a string, so the next key
  cannot be present in it; \<open>get_ssm_path\<close> raises the TypeError of the subscript, which
  \<open>except KeyError\<close> does not catch, and not the ValueError that names the key path.
  (For a key absent from a mapping the ValueError is raised: \<open>missing_key_value_error\<close>.)
\<close>

theorem scalar_intermediate_type_error:
  "get_ssm_path example_builder [''acm'', ''certificate-arn''] False = Inl TypeError"
  by (simp add: example_builder_def get_ssm_path_def get_ssm_path_try_def)

text \<open>
  Claim C8. When \<open>tenant_id\<close> or \<open>environment\<close> is empty, a scoped path that
  \<open>get_ssm_path\<close> returns is \<open>/\<close> followed by the non-empty components joined by
  single slashes: an empty tenant gives \<open>/{environment}/{segment}\<close>, an empty
  environment gives \<open>/{tenant_id}/{segment}\<close>, and the path has no \<open>//\<close> as long as
  the components themselves bring none.
\<close>

theorem empty_component_dropped:
  assumes "get_ssm_path self keys False = Inr r"
    and "tenant_id self = [] \<or> environment self = []"
  shows "\<exists>v. walk (config self) keys = Inr v \<and>
           r = ''/'' @ str_join ''/''
                 (filter (\<lambda>s. s \<noteq> []) [tenant_id self, environment self, seg_of v]) \<and>
           (tenant_id self = [] \<and> environment self \<noteq> [] \<and> seg_of v \<noteq> [] \<longrightarrow>
              r = ''/'' @ environment self @ ''/'' @ seg_of v) \<and>
           (environment self = [] \<and> tenant_id self \<noteq> [] \<and> seg_of v \<noteq> [] \<longrightarrow>
              r = ''/'' @ tenant_id self @ ''/'' @ seg_of v) \<and>
           (tidy (tenant_id self) \<and> tidy (environment self) \<and> tidy (seg_of v) \<longrightarrow>
              \<not> sublist ''//'' r)"
proof -
  from get_ssm_path_env_form[OF assms(1)]
  obtain v where w: "walk (config self) keys = Inr v"
    and r: "r = ''/'' @ str_join ''/''
               (filter (\<lambda>s. s \<noteq> []) [tenant_id self, environment self, seg_of v])"
    by auto
  have nd: "\<not> sublist ''//'' r"
    if "tidy (tenant_id self) \<and> tidy (environment self) \<and> tidy (seg_of v)"
    unfolding r by (rule no_dslash_path) (use that in auto)
  from w r nd show ?thesis by auto
qed

theorem empty_component_dropped_witness:
  "get_ssm_path no_tenant_builder [''eks'', ''oidc-id''] False = Inr ''/dev/eks/oidc-id'' \<and>
   tenant_id no_tenant_builder = [] \<and>
   tidy ''dev'' \<and> tidy ''eks/oidc-id'' \<and>
   \<not> sublist ''//'' ''/dev/eks/oidc-id''"
proof -
  have h1: "get_ssm_path no_tenant_builder [''eks'', ''oidc-id''] False = Inr ''/dev/eks/oidc-id''"
    by (simp add: no_tenant_builder_def get_ssm_path_def get_ssm_path_try_def param_env_base_def
        param_base_def py_join_def)
  have h2: "tenant_id no_tenant_builder = [] \<or> environment no_tenant_builder = []"
    by (simp add: no_tenant_builder_def)
  have w: "walk (config no_tenant_builder) [''eks'', ''oidc-id''] = Inr (YStr ''eks/oidc-id'')"
    by (simp add: no_tenant_builder_def)
  have t: "tidy [] \<and> tidy ''dev'' \<and> tidy ''eks/oidc-id''"
    by (simp add: tidy_def sublist_Cons_right)
  from empty_component_dropped [OF h1 h2] w t h1 show ?thesis
    by (auto simp: no_tenant_builder_def)
qed

text \<open>
  Claim C10. \<open>get_ssm_path_all\<close> returns \<open>/\<close>, the non-empty ones of tenant and
  environment, and \<open>*\<close>, joined by slashes: \<open>/{tenant_id}/{environment}/*\<close> when
  both are non-empty. When \<open>get_ssm_path\<close> resolves a scoped key to a non-empty
  segment, the path it returns begins with that string without its final \<open>*\<close>, which
  is \<open>/\<close> followed by each non-empty one of tenant and environment with a slash after
  it.
\<close>

theorem resolved_path_under_wildcard:
  assumes "get_ssm_path self keys False = Inr r"
    and "walk (config self) keys = Inr v"
    and "truthy v"
  shows "get_ssm_path_all self =
           Inr (''/'' @ str_join ''/''
                  (filter (\<lambda>s. s \<noteq> []) [tenant_id self, environment self, ''*''])) \<and>
         (tenant_id self \<noteq> [] \<and> environment self \<noteq> [] \<longrightarrow>
            get_ssm_path_all self =
              Inr (''/'' @ tenant_id self @ ''/'' @ environment self @ ''/*'') \<and>
            prefix (''/'' @ tenant_id self @ ''/'' @ environment self @ ''/'') r) \<and>
         (\<exists>a. get_ssm_path_all self = Inr a \<and> a \<noteq> [] \<and> last a = CHR ''*'' \<and>
              prefix (butlast a) r \<and>
              butlast a = ''/'' @ concat (map (\<lambda>s. s @ ''/'')
                            (filter (\<lambda>s. s \<noteq> []) [tenant_id self, environment self])))"
proof -
  from get_ssm_path_env_form[OF assms(1)] assms(2)
  have r: "r = ''/'' @ str_join ''/''
             (filter (\<lambda>s. s \<noteq> []) [tenant_id self, environment self, seg_of v])"
    by auto
  have a: "get_ssm_path_all self =
             Inr (''/'' @ str_join ''/''
                    (filter (\<lambda>s. s \<noteq> []) [tenant_id self, environment self, ''*'']))"
    by (auto simp: get_ssm_path_all_def param_env_base_def param_base_def py_join_def)
  have sv: "seg_of v \<noteq> []" using truthy_resolved_is_str[OF assms] by auto
  show ?thesis unfolding a r using sv
    by (cases "tenant_id self = []"; cases "environment self = []") (simp_all add: butlast_append)
qed

theorem resolved_path_under_wildcard_witness:
  "get_ssm_path example_builder [''eks'', ''oidc-id''] False = Inr ''/acme/dev/eks/oidc-id'' \<and>
   walk (config example_builder) [''eks'', ''oidc-id''] = Inr (YStr ''eks/oidc-id'') \<and>
   truthy (YStr ''eks/oidc-id'') \<and>
   get_ssm_path_all example_builder = Inr ''/acme/dev/*'' \<and>
   prefix (butlast ''/acme/dev/*'') ''/acme/dev/eks/oidc-id'' \<and>
   (\<exists>a. get_ssm_path_all example_builder = Inr a \<and> a \<noteq> [] \<and> last a = CHR ''*'' \<and>
        prefix (butlast a) ''/acme/dev/eks/oidc-id'')"
proof -
  have h1: "get_ssm_path example_builder [''eks'', ''oidc-id''] False = Inr ''/acme/dev/eks/oidc-id''"
    by (simp add: example_builder_def get_ssm_path_def get_ssm_path_try_def param_env_base_def
        param_base_def py_join_def)
  have h2: "walk (config example_builder) [''eks'', ''oidc-id''] = Inr (YStr ''eks/oidc-id'')"
    by (simp add: example_builder_def)
  have h3: "truthy (YStr ''eks/oidc-id'')" by simp
  have t: "tenant_id example_builder = ''acme''" "environment example_builder = ''dev''"
    by (simp_all add: example_builder_def)
  from resolved_path_under_wildcard [OF h1 h2 h3]
  have c: "get_ssm_path_all example_builder = Inr ''/acme/dev/*''"
    unfolding t by simp
  show ?thesis using h1 h2 h3 c by simp
qed

section \<open>Properties of the tenant and environment selection\<close>

lemma set_valid_envs:
  "set (valid_envs environments) =
     {pair_label x y | x y.
        \<exists>env_dict. (x, env_dict) \<in> set environments \<and> y \<in> fst ` set env_dict}"
  by (auto simp: valid_envs_def)

lemma pair_in_environments_iff:
  assumes "distinct (map fst environments)"
  shows "pair_in_environments environments (Some x) (Some y) =
           (\<exists>env_dict. (x, env_dict) \<in> set environments \<and> y \<in> fst ` set env_dict)"
proof (cases "map_of environments x")
  case None
  then have "x \<notin> fst ` set environments" by (simp add: map_of_eq_None_iff)
  then have "\<not> (\<exists>env_dict. (x, env_dict) \<in> set environments \<and> y \<in> fst ` set env_dict)"
    by force
  with None show ?thesis by (simp add: pair_in_environments_def)
next
  case (Some d)
  have only: "(x, d') \<in> set environments \<longleftrightarrow> d' = d" for d'
    using Some map_of_eq_Some_iff[OF assms, of x d'] by auto
  have "pair_in_environments environments (Some x) (Some y) = (y \<in> fst ` set d)"
    using Some by (simp add: pair_in_environments_def map_of_eq_None_iff)
  with only show ?thesis by simp
qed

text \<open>
  Claim C4. When \<open>tenant_id\<close> is non-empty and the pair is not in the
  \<open>environments\<close> tree, the script raises ValueError; its message ends with the
  labels of \<open>valid_envs\<close> joined by \<open>; \<close>, and these labels are exactly the
  \<open>Tenant: X, Environment: Y\<close> labels of the pairs present in the tree. A Python dict
  has each key once, which for the association list is \<open>distinct (map fst environments)\<close>.
\<close>

theorem invalid_pair_enumeration:
  assumes "distinct (map fst environments)"
    and "t \<noteq> []"
    and "\<not> pair_in_environments environments (Some t) ctx_target_env"
  shows "app_select environments (Some t) ctx_target_env =
           Inl (ValueError (''Invalid arguments: '' @ t @ '', '' @ format_opt ctx_target_env @
                            ''. Valid arguments are: '' @
                            str_join ''; '' (valid_envs environments))) \<and>
         set (valid_envs environments) =
           {pair_label x y | x y.
              pair_in_environments environments (Some x) (Some y)}"
proof -
  have "app_select environments (Some t) ctx_target_env =
           Inl (ValueError (''Invalid arguments: '' @ t @ '', '' @ format_opt ctx_target_env @
                            ''. Valid arguments are: '' @
                            str_join ''; '' (valid_envs environments)))"
    using assms(2,3) by (simp add: app_select_def)
  moreover have "set (valid_envs environments) =
           {pair_label x y | x y.
              pair_in_environments environments (Some x) (Some y)}"
    unfolding set_valid_envs using pair_in_environments_iff[OF assms(1)] by simp
  ultimately show ?thesis by simp
qed

theorem invalid_pair_enumeration_witness:
  "distinct (map fst example_environments) \<and>
   \<not> pair_in_environments example_environments (Some ''acme'') (Some ''qa'') \<and>
   app_select example_environments (Some ''acme'') (Some ''qa'') =
     Inl (ValueError (''Invalid arguments: acme, qa. Valid arguments are: '' @
                      ''Tenant: acme, Environment: dev; Tenant: acme, Environment: prod'')) \<and>
   valid_envs example_environments =
     [''Tenant: acme, Environment: dev'', ''Tenant: acme, Environment: prod''] \<and>
   {''Tenant: acme, Environment: dev'', ''Tenant: acme, Environment: prod''} =
     {pair_label x y | x y.
        pair_in_environments example_environments (Some x) (Some y)}"
proof -
  have h1: "distinct (map fst example_environments)"
    by (simp add: example_environments_def)
  have h2: "''acme'' \<noteq> []" by simp
  have h3: "\<not> pair_in_environments example_environments (Some ''acme'') (Some ''qa'')"
    by (simp add: example_environments_def pair_in_environments_def)
  have v: "valid_envs example_environments =
     [''Tenant: acme, Environment: dev'', ''Tenant: acme, Environment: prod'']"
    by (simp add: example_environments_def valid_envs_def pair_label_def)
  have a: "app_select example_environments (Some ''acme'') (Some ''qa'') =
     Inl (ValueError (''Invalid arguments: acme, qa. Valid arguments are: '' @
                      ''Tenant: acme, Environment: dev; Tenant: acme, Environment: prod''))"
    using invalid_pair_enumeration [OF h1 h2 h3] unfolding v by simp
  have c: "set (valid_envs example_environments) =
     {pair_label x y | x y.
        pair_in_environments example_environments (Some x) (Some y)}"
    using invalid_pair_enumeration [OF h1 h2 h3] by (rule conjunct2)
  have s: "{''Tenant: acme, Environment: dev'', ''Tenant: acme, Environment: prod''} =
     {pair_label x y | x y.
        pair_in_environments example_environments (Some x) (Some y)}"
    using c unfolding v by (simp only: list.set)
  from h1 h3 a v s show ?thesis by (intro conjI)
qed

text \<open>
  Claim C9. With the empty string as \<open>tenant_id\<close> the script takes the toolchain
  branch, whatever \<open>target_env\<close> and the \<open>environments\<close> tree are: it builds no
  tenant pipeline and raises no error about the pair.
\<close>

theorem toolchain_on_empty_tenant:
  "app_select environments (Some []) ctx_target_env = Inr ToolchainStack"
  by (simp add: app_select_def)

theorem toolchain_on_empty_tenant_witness:
  "app_select example_environments (Some []) (Some ''dev'') = Inr ToolchainStack"
  using toolchain_on_empty_tenant [of example_environments "Some ''dev''"] by simp

section \<open>Properties of load\_configurations\<close>

text \<open>
  The key of a document is its file name without the extension, so \<open>x.yaml\<close> and
  \<open>x.yml\<close> share a key, and the document listed second is the one that stays.
\<close>

lemma splitext_yaml:
  assumes "list_ex (\<lambda>c. c \<noteq> CHR ''.'') root"
  shows "splitext (root @ ''.yaml'') = (root, ''.yaml'')"
    and "splitext (root @ ''.yml'') = (root, ''.yml'')"
  using assms by (simp_all add: splitext_def Let_def)

lemma endswith_append: "endswith (root @ suf) suf"
  by (simp add: endswith_def)

lemma collision_any_root:
  assumes "list_ex (\<lambda>c. c \<noteq> CHR ''.'') root"
  shows "load_configurations [(root @ ''.yaml'', Inr a), (root @ ''.yml'', Inr b)] =
           Inr [root \<mapsto> b]"
  using endswith_append[of root "''.yaml''"] endswith_append[of root "''.yml''"]
  by (simp add: load_configurations_def splitext_yaml[OF assms])

text \<open>
  Claim C7 at an input where it fails. Two files whose names differ only in the extension
  get the same key; the second assignment replaces the first document, and the result
  holds only the document loaded last.
\<close>

theorem extension_collision_last_wins:
  "load_configurations
     [(''x.yaml'', Inr (YDict [(''a'', YInt 1)])), (''x.yml'', Inr (YDict [(''b'', YInt 2)]))] =
   Inr [''x'' \<mapsto> YDict [(''b'', YInt 2)]]"
  by (simp add: load_configurations_def endswith_def splitext_def Let_def)

section \<open>Properties of InfraPipelineStack\<close>






end
